theory Spec2Isabelle
  imports Main "HOL-Library.Word"
begin

section \<open>The account lifecycle service of check-mark-backend\<close>

text \<open>
  The theory embeds \<^verbatim>\<open>src/routes/user/user.service.ts\<close> and the refresh handler of
  \<^verbatim>\<open>src/routes/user/user.controller.ts\<close>. Every service function is \<^verbatim>\<open>async\<close>:
  it either returns a response envelope built by \<^verbatim>\<open>Format\<close> or rejects with a thrown
  error. The model returns \<open>js_error + envelope\<close> (\<open>Inl\<close> the thrown error) together with
  the state of the two stores and the log of the effects performed so far.
\<close>

subsection \<open>JavaScript values\<close>

datatype js_error =
    APIError string nat
  | TokenExpiredError
  | JsonWebTokenError
  | OtherError string

text \<open>A settled promise. \<^verbatim>\<open>await p\<close> yields the value of a resolved promise and throws
  the reason of a rejected one; a promise that is not awaited is dropped.\<close>

datatype 'a promise = Resolved 'a | Rejected js_error

text \<open>JavaScript truthiness of a promise object, as tested by \<^verbatim>\<open>!p\<close>: every object is
  truthy, whatever the promise settles to.\<close>

definition truthy_promise :: "'a promise \<Rightarrow> bool" where
  "truthy_promise p = True"

subsection \<open>Data model\<close>

text \<open>A user document (\<^verbatim>\<open>UserDoc\<close>). Dates are milliseconds since the epoch.\<close>

record user_doc =
  user_id :: string
  email :: string
  password :: string
  isVerified :: bool
  verificationToken :: string
  lastLogin :: "int option"
  otp :: "string option"
  otpExpires :: "int option"

datatype mail = Mail (recipients: "string list") (params: "(string \<times> string) list") (templateId: nat)

record refresh_claims =
  claim_id :: string
  claim_email :: string
  exp :: int

datatype payload =
    NoData
  | AccessToken string
  | CreatedUser string string bool

text \<open>The calls of \<^verbatim>\<open>Format\<close> (\<^verbatim>\<open>src/utils/format\<close>), kept as the source writes them.\<close>

datatype envelope =
    Format_success payload string
  | Format_notFound string
  | Format_badRequest string
  | Format_unAuthorized string
  | Format_error nat string

datatype effect =
    SendEmail mail
  | Saved string
  | Blacklisted string int
  | TokensGenerated string string
  | CookieSet string string

record state =
  users :: "string \<rightharpoonup> user_doc"
  blacklist :: "string \<rightharpoonup> int"
  effects :: "effect list"

text \<open>The collaborators whose code is outside the two source files, taken as parameters:
  configuration, clock, random source, bcrypt, the password method of the user model, the
  token issuer and decoder, and the outcome of the mailing service.\<close>

record deps =
  BACKEND_URL :: string
  bodyInvalid :: string
  now :: int
  entropy :: "nat \<Rightarrow> 8 word"
  genSalt :: "nat \<Rightarrow> string"
  bcrypt_hash :: "string \<Rightarrow> string \<Rightarrow> string"
  bcrypt_compare :: "string \<Rightarrow> string \<Rightarrow> bool"
  comparePassword :: "string \<Rightarrow> string \<Rightarrow> bool"
  hashPassword :: "string \<Rightarrow> string"
  newUserId :: string
  newVerificationToken :: string
  generateTokens :: "string \<Rightarrow> string \<Rightarrow> string \<times> string"
  decodeRefreshToken :: "string \<Rightarrow> js_error + refresh_claims"
  mailer :: "mail \<Rightarrow> unit promise"

type_synonym result = "(js_error + envelope) \<times> state"

subsection \<open>The stores (\<^verbatim>\<open>user.dao\<close>)\<close>

text \<open>Modelled from the spec: the user record store of \<^verbatim>\<open>user.dao\<close> and the user model,
  which are not among the source files. The store is keyed by email; the secure and the
  insecure lookup find the same record (they differ in the fields they project, none of
  which the callers of the secure lookup read).\<close>

definition checkUserEmailExist :: "state \<Rightarrow> string \<Rightarrow> user_doc option" where
  "checkUserEmailExist s e = users s e"

definition getUserByEmail :: "state \<Rightarrow> string \<Rightarrow> user_doc option" where
  "getUserByEmail s e = users s e"

definition getUserByEmailInsecure :: "state \<Rightarrow> string \<Rightarrow> user_doc option" where
  "getUserByEmailInsecure s e = users s e"

text \<open>Modelled from the spec: \<^verbatim>\<open>user.save()\<close> writes the document back to the record it was
  loaded from (\<open>key\<close> stands for the document's identity).\<close>

definition save :: "string \<Rightarrow> user_doc \<Rightarrow> state \<Rightarrow> state" where
  "save key doc s = s\<lparr>users := (users s)(key \<mapsto> doc), effects := effects s @ [Saved key]\<rparr>"

text \<open>Modelled from the spec: \<^verbatim>\<open>saveUser\<close> hashes the password, generates a single-use
  verification token and persists the user with \<open>isVerified = false\<close>.\<close>

definition saveUser :: "deps \<Rightarrow> string \<Rightarrow> string \<Rightarrow> state \<Rightarrow> user_doc \<times> state" where
  "saveUser d e pw s =
     (let doc = \<lparr>user_id = newUserId d, email = e, password = hashPassword d pw,
                 isVerified = False, verificationToken = newVerificationToken d,
                 lastLogin = None, otp = None, otpExpires = None\<rparr>
      in (doc, save e doc s))"

text \<open>Modelled from the spec: \<^verbatim>\<open>blacklistToken\<close> is an idempotent insert keyed by the token.\<close>

definition blacklistToken :: "string \<Rightarrow> int \<Rightarrow> state \<Rightarrow> state" where
  "blacklistToken tok ex s =
     s\<lparr>blacklist := (blacklist s)(tok \<mapsto> ex), effects := effects s @ [Blacklisted tok ex]\<rparr>"

subsection \<open>Effects of the service\<close>

definition perform :: "effect \<Rightarrow> state \<Rightarrow> state" where
  "perform ev s = s\<lparr>effects := effects s @ [ev]\<rparr>"

definition verification_url :: "deps \<Rightarrow> string \<Rightarrow> string \<Rightarrow> string" where
  "verification_url d tok e = BACKEND_URL d @ ''/api/user/verify/'' @ tok @ ''?email='' @ e"

definition verification_mail :: "deps \<Rightarrow> user_doc \<Rightarrow> mail" where
  "verification_mail d u =
     Mail [email u] [(''verification_url'', verification_url d (verificationToken u) (email u))] 1"

definition otp_mail :: "user_doc \<Rightarrow> string \<Rightarrow> mail" where
  "otp_mail u code = Mail [email u] [(''otp'', code)] 2"

subsection \<open>\<^verbatim>\<open>crypto.randomBytes(n).toString('hex')\<close>\<close>

definition hex_digit :: "nat \<Rightarrow> char" where
  "hex_digit n = ''0123456789abcdef'' ! (n mod 16)"

definition byte_to_hex :: "8 word \<Rightarrow> string" where
  "byte_to_hex b = [hex_digit (unat b div 16), hex_digit (unat b mod 16)]"

definition toString_hex :: "8 word list \<Rightarrow> string" where
  "toString_hex bs = concat (map byte_to_hex bs)"

definition randomBytes :: "deps \<Rightarrow> nat \<Rightarrow> 8 word list" where
  "randomBytes d n = map (entropy d) [0..<n]"

definition is_hex :: "string \<Rightarrow> bool" where
  "is_hex cs = list_all (\<lambda>c. c \<in> set ''0123456789abcdef'') cs"

subsection \<open>The service functions\<close>

text \<open>\<^verbatim>\<open>addUser\<close>: the duplicate check throws an \<^verbatim>\<open>APIError\<close>; the verification mail is
  requested without \<^verbatim>\<open>await\<close>, so its outcome is never read.\<close>

definition addUser :: "deps \<Rightarrow> string \<Rightarrow> string \<Rightarrow> state \<Rightarrow> result" where
  "addUser d e pw s =
     (case checkUserEmailExist s e of
        Some userWithEmail \<Rightarrow>
          (Inl (APIError ''Account already exists with this email.'' 400), s)
      | None \<Rightarrow>
          (case saveUser d e pw s of
             (res, s1) \<Rightarrow>
               (Inr (Format_success
                       (CreatedUser (user_id res) (email res) (isVerified res))
                       ''User created successfully''),
                perform (SendEmail (verification_mail d res)) s1)))"

definition set_refresh_cookie :: "string \<Rightarrow> state \<Rightarrow> state" where
  "set_refresh_cookie refreshToken s = perform (CookieSet ''refreshToken'' refreshToken) s"

definition loginUser :: "deps \<Rightarrow> string \<Rightarrow> string \<Rightarrow> state \<Rightarrow> result" where
  "loginUser d e pw s =
     (case getUserByEmailInsecure s e of
        None \<Rightarrow> (Inr (Format_notFound ''User not found''), s)
      | Some user \<Rightarrow>
          (let isPasswordMatch = comparePassword d pw (password user) in
           if \<not> isVerified user then
             (Inr (Format_error 403 ''Email not verified. Verification link sent to your email.''),
              perform (SendEmail (verification_mail d user)) s)
           else if \<not> isPasswordMatch then
             (Inr (Format_unAuthorized ''Invalid credentials''), s)
           else
             (case generateTokens d (user_id user) (email user) of
                (accessToken, refreshToken) \<Rightarrow>
                  (Inr (Format_success (AccessToken accessToken) ''User login successful''),
                   set_refresh_cookie refreshToken
                     (save e (user\<lparr>lastLogin := Some (now d)\<rparr>)
                        (perform (TokensGenerated accessToken refreshToken) s))))))"

definition verifyEmail :: "string \<Rightarrow> string \<Rightarrow> state \<Rightarrow> result" where
  "verifyEmail token e s =
     (case getUserByEmailInsecure s e of
        None \<Rightarrow> (Inr (Format_notFound ''User not found''), s)
      | Some user \<Rightarrow>
          if verificationToken user = token then
            (Inr (Format_success NoData ''Email verified successfully''),
             save e (user\<lparr>isVerified := True, verificationToken := ''''\<rparr>) s)
          else (Inr (Format_badRequest ''Invalid verification link''), s))"

text \<open>\<^verbatim>\<open>refreshAccessToken\<close> awaits the decoder outside any \<^verbatim>\<open>try\<close>: a rejection leaves
  the function at once.\<close>

definition refreshAccessToken :: "deps \<Rightarrow> user_doc \<Rightarrow> string \<Rightarrow> state \<Rightarrow> result" where
  "refreshAccessToken d user oldToken s =
     (case decodeRefreshToken d oldToken of
        Inl err \<Rightarrow> (Inl err, s)
      | Inr claims \<Rightarrow>
          (let s1 = blacklistToken oldToken (exp claims) s in
           case generateTokens d (user_id user) (email user) of
             (accessToken, refreshToken) \<Rightarrow>
               (Inr (Format_success (AccessToken accessToken)
                       ''Access,Refresh token updated successfully''),
                set_refresh_cookie refreshToken
                  (perform (TokensGenerated accessToken refreshToken) s1))))"

text \<open>\<^verbatim>\<open>logoutUser\<close> catches the decoder's rejection; both kinds of error only differ in
  the warning that is logged.\<close>

definition logoutUser :: "deps \<Rightarrow> string \<Rightarrow> state \<Rightarrow> result" where
  "logoutUser d refreshToken s =
     (case decodeRefreshToken d refreshToken of
        Inl err \<Rightarrow> (Inr (Format_success NoData ''User already logged out''), s)
      | Inr claims \<Rightarrow>
          (Inr (Format_success NoData ''User logged out successfully''),
           blacklistToken refreshToken (exp claims) s))"

text \<open>\<^verbatim>\<open>forgotPassword\<close> awaits the mail before it saves: a rejected send is thrown and the
  save is not reached.\<close>

definition forgotPassword :: "deps \<Rightarrow> string \<Rightarrow> state \<Rightarrow> result" where
  "forgotPassword d e s =
     (case getUserByEmail s e of
        None \<Rightarrow> (Inr (Format_notFound ''User not found''), s)
      | Some user \<Rightarrow>
          (let code = toString_hex (randomBytes d 6);
               salt = genSalt d 10;
               hashedOtp = bcrypt_hash d code salt;
               user' = user\<lparr>otp := Some hashedOtp,
                            otpExpires := Some (now d + 5 * 60 * 1000)\<rparr>;
               s1 = perform (SendEmail (otp_mail user code)) s
           in case mailer d (otp_mail user code) of
                Rejected err \<Rightarrow> (Inl err, s1)
              | Resolved u \<Rightarrow> (Inr (Format_success NoData ''OTP sent to your email''),
                              save e user' s1)))"

text \<open>\<^verbatim>\<open>resetPassword\<close>: the guard \<^verbatim>\<open>!user.otpExpires || !user.otp || user.otpExpires < new Date()\<close>
  is the chain of cases below (an absent date, an absent or empty string, an expiry before
  the clock). \<^verbatim>\<open>bcrypt.compare\<close> is called without \<^verbatim>\<open>await\<close>, so \<open>isOtpMatch\<close> is the
  promise itself.\<close>

definition resetPassword :: "deps \<Rightarrow> string \<Rightarrow> string \<Rightarrow> string \<Rightarrow> state \<Rightarrow> result" where
  "resetPassword d e pw code s =
     (case getUserByEmailInsecure s e of
        None \<Rightarrow> (Inr (Format_notFound ''User not found''), s)
      | Some user \<Rightarrow>
          (case otpExpires user of
             None \<Rightarrow> (Inr (Format_badRequest ''OTP expired''), s)
           | Some expires \<Rightarrow>
               (case otp user of
                  None \<Rightarrow> (Inr (Format_badRequest ''OTP expired''), s)
                | Some stored \<Rightarrow>
                    if stored = [] then (Inr (Format_badRequest ''OTP expired''), s)
                    else if expires < now d then (Inr (Format_badRequest ''OTP expired''), s)
                    else
                      (let isOtpMatch = (Resolved (bcrypt_compare d code stored) :: bool promise) in
                       if \<not> truthy_promise isOtpMatch then
                         (Inr (Format_badRequest ''Invalid OTP''), s)
                       else
                         (Inr (Format_success NoData ''Password reset successfully''),
                          save e (user\<lparr>password := pw, otp := None, otpExpires := None\<rparr>) s)))))"

subsection \<open>The refresh handler of the controller\<close>

datatype http_out = Responded nat envelope | Next js_error

definition refreshAccessTokenHandler ::
  "deps \<Rightarrow> user_doc \<Rightarrow> string \<Rightarrow> string list \<Rightarrow> state \<Rightarrow> http_out \<times> state" where
  "refreshAccessTokenHandler d user oldToken errors s =
     (if errors \<noteq> [] then (Next (APIError (bodyInvalid d) 400), s)
      else (case refreshAccessToken d user oldToken s of
              (Inl err, s') \<Rightarrow> (Next err, s')
            | (Inr res, s') \<Rightarrow> (Responded 200 res, s')))"

subsection \<open>A concrete run\<close>

text \<open>Concrete collaborators and states, on which the theorems below are instantiated.\<close>

definition example_deps :: deps where
  "example_deps =
     \<lparr>BACKEND_URL = ''http://localhost'', bodyInvalid = ''Invalid request body'', now = 1000,
      entropy = (\<lambda>i. word_of_nat (17 * i + 171)),
      genSalt = (\<lambda>n. ''salt''),
      bcrypt_hash = (\<lambda>c salt. salt @ c),
      bcrypt_compare = (\<lambda>c h. h = ''salt'' @ c),
      comparePassword = (\<lambda>c h. h = ''pw:'' @ c),
      hashPassword = (\<lambda>p. ''pw:'' @ p),
      newUserId = ''u1'', newVerificationToken = ''tok-1'',
      generateTokens = (\<lambda>i e. (''access:'' @ i, ''refresh:'' @ i)),
      decodeRefreshToken = (\<lambda>t. if t = ''refresh:u1''
          then Inr \<lparr>claim_id = ''u1'', claim_email = ''a@x.com'', exp = 5000\<rparr>
          else if t = ''stale'' then Inl TokenExpiredError else Inl JsonWebTokenError),
      mailer = (\<lambda>m. Resolved ())\<rparr>"

definition example_user :: user_doc where
  "example_user =
     \<lparr>user_id = ''u1'', email = ''a@x.com'', password = ''pw:P@ssw0rd'', isVerified = False,
      verificationToken = ''tok-1'', lastLogin = None, otp = None, otpExpires = None\<rparr>"

definition empty_state :: state where
  "empty_state = \<lparr>users = Map.empty, blacklist = Map.empty, effects = []\<rparr>"

definition example_state :: state where
  "example_state = \<lparr>users = [''a@x.com'' \<mapsto> example_user], blacklist = Map.empty, effects = []\<rparr>"

definition reset_user :: user_doc where
  "reset_user = example_user\<lparr>isVerified := True, otp := Some ''salt123456'', otpExpires := Some 2000\<rparr>"

definition reset_state :: state where
  "reset_state = \<lparr>users = [''a@x.com'' \<mapsto> reset_user], blacklist = Map.empty, effects = []\<rparr>"

definition failing_mailer :: "mail \<Rightarrow> unit promise" where
  "failing_mailer m = Rejected (OtherError ''mail service unavailable'')"

section \<open>Properties\<close>

subsection \<open>Hex encoding\<close>

lemma length_toString_hex: "length (toString_hex bs) = 2 * length bs"
  by (induction bs) (simp_all add: toString_hex_def byte_to_hex_def)

lemma hex_digit_in: "hex_digit n \<in> set ''0123456789abcdef''"
proof -
  have "n mod 16 < length ''0123456789abcdef''" by simp
  then show ?thesis unfolding hex_digit_def by (rule nth_mem)
qed

lemma is_hex_toString_hex: "is_hex (toString_hex bs)"
  unfolding is_hex_def toString_hex_def byte_to_hex_def
  by (induction bs) (simp_all add: hex_digit_in del: set_simps)

subsection \<open>Login\<close>

text \<open>
  C2. For a stored user whose \<open>isVerified\<close> flag is false, \<open>loginUser\<close> answers with the 403
  envelope "Email not verified" for every supplied password and every outcome of the
  password comparison: the verification test is decided before the password test.
\<close>

theorem loginUser_unverified_forbidden:
  assumes "users s e = Some u" and "\<not> isVerified u"
  shows "fst (loginUser d e pw s) =
           Inr (Format_error 403 ''Email not verified. Verification link sent to your email.'')"
  using assms by (simp add: loginUser_def getUserByEmailInsecure_def)

theorem loginUser_unverified_forbidden_witness:
  "users example_state ''a@x.com'' = Some example_user \<and> \<not> isVerified example_user
   \<and> comparePassword example_deps ''P@ssw0rd'' (password example_user)
   \<and> \<not> comparePassword example_deps ''wrong'' (password example_user)
   \<and> fst (loginUser example_deps ''a@x.com'' ''P@ssw0rd'' example_state) =
       Inr (Format_error 403 ''Email not verified. Verification link sent to your email.'')
   \<and> fst (loginUser example_deps ''a@x.com'' ''wrong'' example_state) =
       Inr (Format_error 403 ''Email not verified. Verification link sent to your email.'')"
proof -
  have u: "users example_state ''a@x.com'' = Some example_user"
    by (simp add: example_state_def)
  have v: "\<not> isVerified example_user"
    by (simp add: example_user_def)
  show ?thesis
    using u v loginUser_unverified_forbidden [OF u v, of example_deps "''P@ssw0rd''"]
      loginUser_unverified_forbidden [OF u v, of example_deps "''wrong''"]
    by (simp add: example_deps_def example_user_def)
qed

subsection \<open>Email verification\<close>

text \<open>
  C3. For a user with a stored verification token \<open>T\<close> (the code represents a cleared token
  by the empty string, so a stored token is a non-empty one), \<open>verifyEmail T e\<close> succeeds: it
  sets \<open>isVerified\<close>, clears the token and saves the user. Every replay of the same call
  afterwards answers "Invalid verification link" and leaves the state as it is.
\<close>

theorem verifyEmail_succeeds_exactly_once:
  assumes "users s e = Some u" and "verificationToken u = T" and "T \<noteq> ''''"
  shows "verifyEmail T e s =
           (Inr (Format_success NoData ''Email verified successfully''),
            save e (u\<lparr>isVerified := True, verificationToken := ''''\<rparr>) s)
       \<and> users (snd (verifyEmail T e s)) e = Some (u\<lparr>isVerified := True, verificationToken := ''''\<rparr>)
       \<and> (\<forall>n. ((\<lambda>st. snd (verifyEmail T e st)) ^^ n) (snd (verifyEmail T e s)) = snd (verifyEmail T e s)
              \<and> fst (verifyEmail T e (((\<lambda>st. snd (verifyEmail T e st)) ^^ n) (snd (verifyEmail T e s))))
                  = Inr (Format_badRequest ''Invalid verification link''))"
proof -
  let ?u' = "u\<lparr>isVerified := True, verificationToken := ''''\<rparr>"
  let ?s' = "save e ?u' s"
  have first: "verifyEmail T e s = (Inr (Format_success NoData ''Email verified successfully''), ?s')"
    using assms(1,2) by (simp add: verifyEmail_def getUserByEmailInsecure_def)
  have stored: "users ?s' e = Some ?u'"
    by (simp add: save_def)
  have replay: "verifyEmail T e ?s' = (Inr (Format_badRequest ''Invalid verification link''), ?s')"
    using stored assms(3) by (simp add: verifyEmail_def getUserByEmailInsecure_def)
  have fixed: "((\<lambda>st. snd (verifyEmail T e st)) ^^ n) ?s' = ?s'" for n
    by (induction n) (simp_all add: replay)
  show ?thesis
    using first stored replay fixed by simp
qed

theorem verifyEmail_succeeds_exactly_once_witness:
  "users example_state ''a@x.com'' = Some example_user
   \<and> verificationToken example_user = ''tok-1'' \<and> ''tok-1'' \<noteq> ''''
   \<and> fst (verifyEmail ''tok-1'' ''a@x.com'' example_state)
       = Inr (Format_success NoData ''Email verified successfully'')
   \<and> users (snd (verifyEmail ''tok-1'' ''a@x.com'' example_state)) ''a@x.com''
       = Some (example_user\<lparr>isVerified := True, verificationToken := ''''\<rparr>)
   \<and> fst (verifyEmail ''tok-1'' ''a@x.com'' (snd (verifyEmail ''tok-1'' ''a@x.com'' example_state)))
       = Inr (Format_badRequest ''Invalid verification link'')"
proof -
  have u: "users example_state ''a@x.com'' = Some example_user"
    by (simp add: example_state_def)
  have t: "verificationToken example_user = ''tok-1''"
    by (simp add: example_user_def)
  have ne: "''tok-1'' \<noteq> ''''" by simp
  note main = verifyEmail_succeeds_exactly_once [OF u t ne]
  from main have a: "fst (verifyEmail ''tok-1'' ''a@x.com'' example_state)
       = Inr (Format_success NoData ''Email verified successfully'')" by simp
  from main have b: "users (snd (verifyEmail ''tok-1'' ''a@x.com'' example_state)) ''a@x.com''
       = Some (example_user\<lparr>isVerified := True, verificationToken := ''''\<rparr>)" by blast
  from main have "fst (verifyEmail ''tok-1'' ''a@x.com''
        (((\<lambda>st. snd (verifyEmail ''tok-1'' ''a@x.com'' st)) ^^ 0) (snd (verifyEmail ''tok-1'' ''a@x.com'' example_state))))
       = Inr (Format_badRequest ''Invalid verification link'')" by blast
  then have c: "fst (verifyEmail ''tok-1'' ''a@x.com'' (snd (verifyEmail ''tok-1'' ''a@x.com'' example_state)))
       = Inr (Format_badRequest ''Invalid verification link'')" by simp
  show ?thesis using u t ne a b c by blast
qed

subsection \<open>Signup\<close>

text \<open>
  C4. For an email with no stored user, a first \<open>addUser\<close> succeeds, and a second
  \<open>addUser\<close> with the same email, whatever the password and the collaborators, throws the
  \<open>APIError\<close> "Account already exists with this email." and leaves the state as it is.
\<close>

theorem addUser_second_signup_rejected:
  assumes "users s e = None"
  shows "\<exists>created s1.
           addUser d e pw s = (Inr (Format_success created ''User created successfully''), s1)
         \<and> addUser d' e pw' s1 = (Inl (APIError ''Account already exists with this email.'' 400), s1)"
  using assms
  by (simp add: addUser_def checkUserEmailExist_def saveUser_def save_def perform_def Let_def)

theorem addUser_second_signup_rejected_witness:
  "users empty_state ''a@x.com'' = None
   \<and> fst (addUser example_deps ''a@x.com'' ''P@ssw0rd'' empty_state)
       = Inr (Format_success (CreatedUser ''u1'' ''a@x.com'' False) ''User created successfully'')
   \<and> fst (addUser example_deps ''a@x.com'' ''P@ssw0rd''
            (snd (addUser example_deps ''a@x.com'' ''P@ssw0rd'' empty_state)))
       = Inl (APIError ''Account already exists with this email.'' 400)"
proof -
  have free: "users empty_state ''a@x.com'' = None"
    by (simp add: empty_state_def)
  obtain created s1 where
    one: "addUser example_deps ''a@x.com'' ''P@ssw0rd'' empty_state
            = (Inr (Format_success created ''User created successfully''), s1)" and
    two: "addUser example_deps ''a@x.com'' ''P@ssw0rd'' s1
            = (Inl (APIError ''Account already exists with this email.'' 400), s1)"
    using addUser_second_signup_rejected [OF free, of example_deps "''P@ssw0rd''" example_deps "''P@ssw0rd''"]
    by blast
  have "created = CreatedUser ''u1'' ''a@x.com'' False"
    using one free
    by (simp add: addUser_def checkUserEmailExist_def saveUser_def example_deps_def Let_def)
  then show ?thesis using free one two by simp
qed

subsection \<open>Logout\<close>

text \<open>
  C5. When decoding the refresh token fails, \<open>logoutUser\<close> succeeds and the state, hence
  the blacklist, is unchanged. When decoding succeeds, \<open>logoutUser\<close> succeeds and the
  blacklist gains exactly the entry for that token, with the \<open>exp\<close> claim as its expiry.
\<close>

theorem logoutUser_blacklists_iff_decoded:
  "(decodeRefreshToken d tok = Inl err \<longrightarrow>
      logoutUser d tok s = (Inr (Format_success NoData ''User already logged out''), s))
   \<and> (decodeRefreshToken d tok = Inr claims \<longrightarrow>
      logoutUser d tok s =
        (Inr (Format_success NoData ''User logged out successfully''),
         s\<lparr>blacklist := (blacklist s)(tok \<mapsto> exp claims),
           effects := effects s @ [Blacklisted tok (exp claims)]\<rparr>)
      \<and> blacklist (snd (logoutUser d tok s)) tok = Some (exp claims)
      \<and> dom (blacklist (snd (logoutUser d tok s))) = insert tok (dom (blacklist s)))"
  by (simp add: logoutUser_def blacklistToken_def)

theorem logoutUser_blacklists_iff_decoded_witness:
  "decodeRefreshToken example_deps ''stale'' = Inl TokenExpiredError
   \<and> logoutUser example_deps ''stale'' example_state
       = (Inr (Format_success NoData ''User already logged out''), example_state)
   \<and> decodeRefreshToken example_deps ''garbage'' = Inl JsonWebTokenError
   \<and> logoutUser example_deps ''garbage'' example_state
       = (Inr (Format_success NoData ''User already logged out''), example_state)
   \<and> decodeRefreshToken example_deps ''refresh:u1''
       = Inr \<lparr>claim_id = ''u1'', claim_email = ''a@x.com'', exp = 5000\<rparr>
   \<and> fst (logoutUser example_deps ''refresh:u1'' example_state)
       = Inr (Format_success NoData ''User logged out successfully'')
   \<and> blacklist (snd (logoutUser example_deps ''refresh:u1'' example_state)) ''refresh:u1'' = Some 5000
   \<and> dom (blacklist (snd (logoutUser example_deps ''refresh:u1'' example_state))) = {''refresh:u1''}"
proof -
  have stale: "decodeRefreshToken example_deps ''stale'' = Inl TokenExpiredError"
    by (simp add: example_deps_def)
  have garbage: "decodeRefreshToken example_deps ''garbage'' = Inl JsonWebTokenError"
    by (simp add: example_deps_def)
  have good: "decodeRefreshToken example_deps ''refresh:u1''
                = Inr \<lparr>claim_id = ''u1'', claim_email = ''a@x.com'', exp = 5000\<rparr>"
    by (simp add: example_deps_def)
  have none: "dom (blacklist example_state) = {}"
    by (simp add: example_state_def)
  show ?thesis
    using stale garbage good none
      logoutUser_blacklists_iff_decoded [of example_deps "''stale''" TokenExpiredError example_state undefined]
      logoutUser_blacklists_iff_decoded [of example_deps "''garbage''" JsonWebTokenError example_state undefined]
      logoutUser_blacklists_iff_decoded [of example_deps "''refresh:u1''" undefined example_state
        "\<lparr>claim_id = ''u1'', claim_email = ''a@x.com'', exp = 5000\<rparr>"]
    by simp
qed

subsection \<open>Password reset\<close>

lemma resetPassword_ignores_comparison:
  assumes "users s e = Some u" and "otpExpires u = Some expires" and "otp u = Some stored"
    and "stored \<noteq> ''''" and "now d \<le> expires"
  shows "resetPassword d e pw code s =
           (Inr (Format_success NoData ''Password reset successfully''),
            save e (u\<lparr>password := pw, otp := None, otpExpires := None\<rparr>) s)"
  using assms
  by (simp add: resetPassword_def getUserByEmailInsecure_def truthy_promise_def)

text \<open>
  C1. The claim: \<open>resetPassword\<close> succeeds only when the supplied OTP hashes to the stored
  hash, and otherwise answers "Invalid OTP" and leaves the user unchanged. The code at a
  user with a stored, unexpired OTP and a supplied OTP that \<open>bcrypt_compare\<close> rejects: the
  call succeeds, and the saved user has the new password and no OTP fields.
\<close>

theorem resetPassword_accepts_wrong_otp:
  "bcrypt_compare example_deps ''000000'' ''salt123456'' = False
   \<and> users reset_state ''a@x.com'' = Some reset_user
   \<and> otp reset_user = Some ''salt123456'' \<and> otpExpires reset_user = Some 2000
   \<and> now example_deps = 1000
   \<and> fst (resetPassword example_deps ''a@x.com'' ''hacked'' ''000000'' reset_state)
       = Inr (Format_success NoData ''Password reset successfully'')
   \<and> users (snd (resetPassword example_deps ''a@x.com'' ''hacked'' ''000000'' reset_state)) ''a@x.com''
       = Some (reset_user\<lparr>password := ''hacked'', otp := None, otpExpires := None\<rparr>)"
  by (simp add: resetPassword_def getUserByEmailInsecure_def truthy_promise_def save_def
      reset_state_def reset_user_def example_user_def example_deps_def)

subsection \<open>Refresh\<close>

text \<open>
  C6. Whenever \<open>refreshAccessToken\<close> returns an envelope, the old token decoded, the
  blacklist holds the old token with its \<open>exp\<close> claim, and the effects of the call are, in this
  order, the blacklisting, the generation of the new pair and the cookie: no access token is
  returned without the old refresh token on the blacklist.
\<close>

theorem refreshAccessToken_blacklists_before_issuing:
  assumes "refreshAccessToken d user oldToken s = (Inr res, s')"
  shows "\<exists>claims accessToken refreshToken.
           decodeRefreshToken d oldToken = Inr claims
         \<and> generateTokens d (user_id user) (email user) = (accessToken, refreshToken)
         \<and> res = Format_success (AccessToken accessToken) ''Access,Refresh token updated successfully''
         \<and> blacklist s' = (blacklist s)(oldToken \<mapsto> exp claims)
         \<and> blacklist s' oldToken = Some (exp claims)
         \<and> effects s' = effects s @ [Blacklisted oldToken (exp claims),
                                      TokensGenerated accessToken refreshToken,
                                      CookieSet ''refreshToken'' refreshToken]"
proof (cases "decodeRefreshToken d oldToken")
  case (Inl err)
  with assms show ?thesis by (simp add: refreshAccessToken_def)
next
  case (Inr claims)
  obtain a r where gen: "generateTokens d (user_id user) (email user) = (a, r)"
    by (cases "generateTokens d (user_id user) (email user)")
  from assms Inr gen have
    res: "res = Format_success (AccessToken a) ''Access,Refresh token updated successfully''" and
    s': "s' = set_refresh_cookie r (perform (TokensGenerated a r) (blacklistToken oldToken (exp claims) s))"
    by (simp_all add: refreshAccessToken_def Let_def)
  have "blacklist s' = (blacklist s)(oldToken \<mapsto> exp claims)"
    by (simp add: s' set_refresh_cookie_def perform_def blacklistToken_def)
  moreover have "effects s' = effects s @ [Blacklisted oldToken (exp claims),
                                      TokensGenerated a r, CookieSet ''refreshToken'' r]"
    by (simp add: s' set_refresh_cookie_def perform_def blacklistToken_def)
  ultimately show ?thesis using Inr gen res by simp
qed

theorem refreshAccessToken_blacklists_before_issuing_witness:
  "refreshAccessToken example_deps example_user ''refresh:u1'' example_state
     = (Inr (Format_success (AccessToken ''access:u1'') ''Access,Refresh token updated successfully''),
        example_state\<lparr>blacklist := [''refresh:u1'' \<mapsto> 5000],
                      effects := [Blacklisted ''refresh:u1'' 5000,
                                  TokensGenerated ''access:u1'' ''refresh:u1'',
                                  CookieSet ''refreshToken'' ''refresh:u1'']\<rparr>)
   \<and> blacklist (example_state\<lparr>blacklist := [''refresh:u1'' \<mapsto> 5000],
                      effects := [Blacklisted ''refresh:u1'' 5000,
                                  TokensGenerated ''access:u1'' ''refresh:u1'',
                                  CookieSet ''refreshToken'' ''refresh:u1'']\<rparr>) ''refresh:u1'' = Some 5000"
proof -
  have run: "refreshAccessToken example_deps example_user ''refresh:u1'' example_state
     = (Inr (Format_success (AccessToken ''access:u1'') ''Access,Refresh token updated successfully''),
        example_state\<lparr>blacklist := [''refresh:u1'' \<mapsto> 5000],
                      effects := [Blacklisted ''refresh:u1'' 5000,
                                  TokensGenerated ''access:u1'' ''refresh:u1'',
                                  CookieSet ''refreshToken'' ''refresh:u1'']\<rparr>)"
    by (simp add: refreshAccessToken_def blacklistToken_def set_refresh_cookie_def perform_def
        example_deps_def example_user_def example_state_def)
  from refreshAccessToken_blacklists_before_issuing [OF run]
  obtain claims where
    "decodeRefreshToken example_deps ''refresh:u1'' = Inr claims" and
    "blacklist (example_state\<lparr>blacklist := [''refresh:u1'' \<mapsto> 5000],
                      effects := [Blacklisted ''refresh:u1'' 5000,
                                  TokensGenerated ''access:u1'' ''refresh:u1'',
                                  CookieSet ''refreshToken'' ''refresh:u1'']\<rparr>) ''refresh:u1''
       = Some (exp claims)"
    by blast
  then have "blacklist (example_state\<lparr>blacklist := [''refresh:u1'' \<mapsto> 5000],
                      effects := [Blacklisted ''refresh:u1'' 5000,
                                  TokensGenerated ''access:u1'' ''refresh:u1'',
                                  CookieSet ''refreshToken'' ''refresh:u1'']\<rparr>) ''refresh:u1'' = Some 5000"
    by (simp add: example_deps_def)
  with run show ?thesis by simp
qed

text \<open>
  C10. When decoding the old refresh token fails, \<open>refreshAccessToken\<close> returns no envelope:
  it throws the decoder's error with the state unchanged (no blacklist entry, no token pair),
  and the handler of the controller passes that error to \<open>next\<close>.
\<close>

theorem refreshAccessToken_decode_error_propagates:
  assumes "decodeRefreshToken d oldToken = Inl err"
  shows "refreshAccessToken d user oldToken s = (Inl err, s)
       \<and> refreshAccessTokenHandler d user oldToken [] s = (Next err, s)"
  using assms by (simp add: refreshAccessToken_def refreshAccessTokenHandler_def)

theorem refreshAccessToken_decode_error_propagates_witness:
  "decodeRefreshToken example_deps ''stale'' = Inl TokenExpiredError
   \<and> refreshAccessToken example_deps example_user ''stale'' example_state
       = (Inl TokenExpiredError, example_state)
   \<and> refreshAccessTokenHandler example_deps example_user ''stale'' [] example_state
       = (Next TokenExpiredError, example_state)
   \<and> decodeRefreshToken example_deps ''garbage'' = Inl JsonWebTokenError
   \<and> refreshAccessToken example_deps example_user ''garbage'' example_state
       = (Inl JsonWebTokenError, example_state)"
proof -
  have stale: "decodeRefreshToken example_deps ''stale'' = Inl TokenExpiredError"
    by (simp add: example_deps_def)
  have garbage: "decodeRefreshToken example_deps ''garbage'' = Inl JsonWebTokenError"
    by (simp add: example_deps_def)
  show ?thesis
    using stale garbage
      refreshAccessToken_decode_error_propagates [OF stale, of example_user example_state]
      refreshAccessToken_decode_error_propagates [OF garbage, of example_user example_state]
    by simp
qed

subsection \<open>Notification mails\<close>

lemma addUser_ignores_mailer: "addUser (d\<lparr>mailer := m\<rparr>) e pw s = addUser d e pw s"
  by (simp add: addUser_def saveUser_def verification_mail_def verification_url_def
      split: option.split)

lemma loginUser_ignores_mailer: "loginUser (d\<lparr>mailer := m\<rparr>) e pw s = loginUser d e pw s"
  by (simp add: loginUser_def verification_mail_def verification_url_def
      split: option.split)

lemma example_otp: "toString_hex (randomBytes example_deps 6) = ''abbccddeef00''"
  by code_simp

text \<open>
  C7. The claim: a failing send never changes the result of an operation. Signup and login
  do not read the outcome of the send (the two lemmas above). \<open>forgotPassword\<close> awaits it:
  at a registered email, with a send that resolves the operation succeeds, and with a send
  that rejects it throws the send's error before the user is saved.
\<close>

theorem forgotPassword_aborts_when_send_rejects:
  "users example_state ''a@x.com'' = Some example_user
   \<and> fst (forgotPassword example_deps ''a@x.com'' example_state)
       = Inr (Format_success NoData ''OTP sent to your email'')
   \<and> forgotPassword (example_deps\<lparr>mailer := failing_mailer\<rparr>) ''a@x.com'' example_state
       = (Inl (OtherError ''mail service unavailable''),
          example_state\<lparr>effects := [SendEmail (Mail [''a@x.com''] [(''otp'', ''abbccddeef00'')] 2)]\<rparr>)"
proof -
  have stored: "users example_state ''a@x.com'' = Some example_user"
    by (simp add: example_state_def)
  have same: "toString_hex (randomBytes (example_deps\<lparr>mailer := failing_mailer\<rparr>) 6) = ''abbccddeef00''"
    using example_otp by (simp add: randomBytes_def)
  have sent: "fst (forgotPassword example_deps ''a@x.com'' example_state)
       = Inr (Format_success NoData ''OTP sent to your email'')"
    using stored by (simp add: forgotPassword_def getUserByEmail_def Let_def example_deps_def)
  have failed: "forgotPassword (example_deps\<lparr>mailer := failing_mailer\<rparr>) ''a@x.com'' example_state
       = (Inl (OtherError ''mail service unavailable''),
          example_state\<lparr>effects := [SendEmail (Mail [''a@x.com''] [(''otp'', ''abbccddeef00'')] 2)]\<rparr>)"
    using stored same
    by (simp add: forgotPassword_def getUserByEmail_def Let_def failing_mailer_def perform_def
        otp_mail_def example_user_def) (simp add: example_state_def)
  show ?thesis using stored sent failed by simp
qed

subsection \<open>Forgotten password\<close>

lemma length_randomBytes: "length (randomBytes d n) = n"
  by (simp add: randomBytes_def)

lemma hex_digit_inj: "i < 16 \<Longrightarrow> j < 16 \<Longrightarrow> hex_digit i = hex_digit j \<Longrightarrow> i = j"
proof -
  assume i: "i < 16" and j: "j < 16" and eq: "hex_digit i = hex_digit j"
  have d: "distinct ''0123456789abcdef''" by simp
  have "i < length ''0123456789abcdef''" "j < length ''0123456789abcdef''"
    using i j by simp_all
  with d eq i j show "i = j"
    unfolding hex_digit_def by (simp only: mod_less nth_eq_iff_index_eq)
qed

lemma byte_to_hex_inj: "byte_to_hex a = byte_to_hex b \<Longrightarrow> a = b"
proof -
  assume eq: "byte_to_hex a = byte_to_hex b"
  have "unat a < 2 ^ 8" "unat b < 2 ^ 8"
    using unsigned_less [of a] unsigned_less [of b] by simp_all
  then have hi: "unat a div 16 < 16" "unat b div 16 < 16"
    by simp_all
  have lo: "unat a mod 16 < 16" "unat b mod 16 < 16"
    by simp_all
  from eq have h: "hex_digit (unat a div 16) = hex_digit (unat b div 16)"
    and l: "hex_digit (unat a mod 16) = hex_digit (unat b mod 16)"
    by (simp_all add: byte_to_hex_def)
  have "unat a div 16 = unat b div 16"
    using hi h by (rule hex_digit_inj)
  moreover have "unat a mod 16 = unat b mod 16"
    using lo l by (rule hex_digit_inj)
  ultimately have "unat a = unat b"
    by (metis div_mult_mod_eq)
  then show "a = b" by (simp add: word_unat_eq_iff)
qed

lemma toString_hex_inj:
  "length xs = length ys \<Longrightarrow> toString_hex xs = toString_hex ys \<Longrightarrow> xs = ys"
proof (induction xs ys rule: list_induct2)
  case Nil
  then show ?case by simp
next
  case (Cons x xs y ys)
  from Cons.prems have "byte_to_hex x @ toString_hex xs = byte_to_hex y @ toString_hex ys"
    by (simp add: toString_hex_def)
  moreover have "length (byte_to_hex x) = length (byte_to_hex y)"
    by (simp add: byte_to_hex_def)
  ultimately have "byte_to_hex x = byte_to_hex y" "toString_hex xs = toString_hex ys"
    by simp_all
  with Cons.IH show ?case by (simp add: byte_to_hex_inj)
qed

lemma otp_determined_by_entropy:
  "toString_hex (randomBytes d 6) = toString_hex (randomBytes d' 6)
     \<longleftrightarrow> map (entropy d) [0..<6] = map (entropy d') [0..<6]"
proof
  assume "toString_hex (randomBytes d 6) = toString_hex (randomBytes d' 6)"
  with toString_hex_inj [of "randomBytes d 6" "randomBytes d' 6"]
  show "map (entropy d) [0..<6] = map (entropy d') [0..<6]"
    by (simp add: randomBytes_def)
next
  assume "map (entropy d) [0..<6] = map (entropy d') [0..<6]"
  then show "toString_hex (randomBytes d 6) = toString_hex (randomBytes d' 6)"
    by (simp only: randomBytes_def)
qed

text \<open>
  The path of \<open>forgotPassword\<close> on which the send resolves: the OTP is 12 hexadecimal
  characters, determined by the six bytes drawn from the random source (lemma
  \<open>otp_determined_by_entropy\<close>); an email with no user gets "User not found" and changes
  nothing; for a stored user the plaintext OTP is handed to the mailer, the bcrypt hash of
  the OTP and an expiry 5 minutes (300000 ms) after the clock are stored on the user, the
  user is saved and the call succeeds. In every case the blacklist is unchanged.
\<close>

lemma forgotPassword_stores_hashed_otp:
  "length (toString_hex (randomBytes d 6)) = 12
   \<and> is_hex (toString_hex (randomBytes d 6))
   \<and> (users s e = None \<longrightarrow>
        forgotPassword d e s = (Inr (Format_notFound ''User not found''), s))
   \<and> (users s e = Some u \<longrightarrow>
        effects (snd (forgotPassword d e s)) ! length (effects s)
          = SendEmail (Mail [email u] [(''otp'', toString_hex (randomBytes d 6))] 2))
   \<and> (users s e = Some u
        \<and> mailer d (Mail [email u] [(''otp'', toString_hex (randomBytes d 6))] 2) = Resolved () \<longrightarrow>
        forgotPassword d e s =
          (Inr (Format_success NoData ''OTP sent to your email''),
           s\<lparr>users := (users s)(e \<mapsto>
                 u\<lparr>otp := Some (bcrypt_hash d (toString_hex (randomBytes d 6)) (genSalt d 10)),
                   otpExpires := Some (now d + 300000)\<rparr>),
             effects := effects s @
                 [SendEmail (Mail [email u] [(''otp'', toString_hex (randomBytes d 6))] 2),
                  Saved e]\<rparr>))
   \<and> blacklist (snd (forgotPassword d e s)) = blacklist s"
proof -
  have len: "length (toString_hex (randomBytes d 6)) = 12"
    by (simp add: length_toString_hex length_randomBytes)
  have hex: "is_hex (toString_hex (randomBytes d 6))"
    by (rule is_hex_toString_hex)
  have missing: "users s e = None \<longrightarrow>
        forgotPassword d e s = (Inr (Format_notFound ''User not found''), s)"
    by (simp add: forgotPassword_def getUserByEmail_def)
  have attempted: "users s e = Some u \<longrightarrow>
        effects (snd (forgotPassword d e s)) ! length (effects s)
          = SendEmail (Mail [email u] [(''otp'', toString_hex (randomBytes d 6))] 2)"
    by (simp add: forgotPassword_def getUserByEmail_def Let_def otp_mail_def perform_def save_def
        nth_append split: promise.split)
  have saved: "users s e = Some u
        \<and> mailer d (Mail [email u] [(''otp'', toString_hex (randomBytes d 6))] 2) = Resolved () \<longrightarrow>
        forgotPassword d e s =
          (Inr (Format_success NoData ''OTP sent to your email''),
           s\<lparr>users := (users s)(e \<mapsto>
                 u\<lparr>otp := Some (bcrypt_hash d (toString_hex (randomBytes d 6)) (genSalt d 10)),
                   otpExpires := Some (now d + 300000)\<rparr>),
             effects := effects s @
                 [SendEmail (Mail [email u] [(''otp'', toString_hex (randomBytes d 6))] 2),
                  Saved e]\<rparr>)"
    by (simp add: forgotPassword_def getUserByEmail_def Let_def otp_mail_def perform_def save_def)
  have untouched: "blacklist (snd (forgotPassword d e s)) = blacklist s"
    by (simp add: forgotPassword_def getUserByEmail_def Let_def perform_def save_def
        split: option.split promise.split)
  show ?thesis
    using len hex missing attempted saved untouched by blast
qed

lemma forgotPassword_stores_hashed_otp_witness:
  "users empty_state ''a@x.com'' = None
   \<and> forgotPassword example_deps ''a@x.com'' empty_state
       = (Inr (Format_notFound ''User not found''), empty_state)
   \<and> users example_state ''a@x.com'' = Some example_user
   \<and> mailer example_deps (Mail [''a@x.com''] [(''otp'', ''abbccddeef00'')] 2) = Resolved ()
   \<and> forgotPassword example_deps ''a@x.com'' example_state
       = (Inr (Format_success NoData ''OTP sent to your email''),
          example_state\<lparr>users := [''a@x.com'' \<mapsto>
                example_user\<lparr>otp := Some ''saltabbccddeef00'', otpExpires := Some 301000\<rparr>],
            effects := [SendEmail (Mail [''a@x.com''] [(''otp'', ''abbccddeef00'')] 2),
                        Saved ''a@x.com'']\<rparr>)
   \<and> blacklist (snd (forgotPassword example_deps ''a@x.com'' example_state)) = Map.empty"
proof -
  have none: "users empty_state ''a@x.com'' = None"
    by (simp add: empty_state_def)
  have some: "users example_state ''a@x.com'' = Some example_user"
    by (simp add: example_state_def)
  have mail: "email example_user = ''a@x.com''"
    by (simp add: example_user_def)
  have sent: "mailer example_deps (Mail [''a@x.com''] [(''otp'', ''abbccddeef00'')] 2) = Resolved ()"
    by (simp add: example_deps_def)
  have params: "bcrypt_hash example_deps ''abbccddeef00'' (genSalt example_deps 10) = ''saltabbccddeef00''"
    "now example_deps = 1000"
    by (simp_all add: example_deps_def)
  have start: "users example_state = [''a@x.com'' \<mapsto> example_user]" "effects example_state = []"
    "blacklist example_state = Map.empty"
    by (simp_all add: example_state_def)
  show ?thesis
    using none some sent
      forgotPassword_stores_hashed_otp [of example_deps empty_state "''a@x.com''" example_user]
      forgotPassword_stores_hashed_otp [of example_deps example_state "''a@x.com''" example_user]
    by (simp add: example_otp mail params start)
qed

text \<open>
  C8. The claim: for every registered email \<open>forgotPassword\<close> stores the hash of a fresh
  12-character OTP with its expiry on the user, saves the user, sends the OTP and succeeds.
  The code at a registered email with a send that rejects: the OTP is drawn and handed to
  the mailer, the call throws the send's error, nothing is saved, and the stored user keeps
  the OTP fields it had before.
\<close>

theorem forgotPassword_rejected_send_stores_no_otp:
  "users reset_state ''a@x.com'' = Some reset_user
   \<and> forgotPassword (example_deps\<lparr>mailer := failing_mailer\<rparr>) ''a@x.com'' reset_state
       = (Inl (OtherError ''mail service unavailable''),
          reset_state\<lparr>effects := [SendEmail (Mail [''a@x.com''] [(''otp'', ''abbccddeef00'')] 2)]\<rparr>)
   \<and> users (snd (forgotPassword (example_deps\<lparr>mailer := failing_mailer\<rparr>) ''a@x.com'' reset_state))
        ''a@x.com'' = Some reset_user
   \<and> otp reset_user = Some ''salt123456'' \<and> otpExpires reset_user = Some 2000"
proof -
  have stored: "users reset_state ''a@x.com'' = Some reset_user"
    by (simp add: reset_state_def)
  have code: "toString_hex (randomBytes (example_deps\<lparr>mailer := failing_mailer\<rparr>) 6) = ''abbccddeef00''"
    using example_otp by (simp add: randomBytes_def)
  have addr: "email reset_user = ''a@x.com''"
    by (simp add: reset_user_def example_user_def)
  have thrown: "forgotPassword (example_deps\<lparr>mailer := failing_mailer\<rparr>) ''a@x.com'' reset_state
       = (Inl (OtherError ''mail service unavailable''),
          reset_state\<lparr>effects := [SendEmail (Mail [''a@x.com''] [(''otp'', ''abbccddeef00'')] 2)]\<rparr>)"
    using stored code addr
    by (simp add: forgotPassword_def getUserByEmail_def Let_def failing_mailer_def perform_def
        otp_mail_def) (simp add: reset_state_def)
  have fields: "otp reset_user = Some ''salt123456''" "otpExpires reset_user = Some 2000"
    by (simp_all add: reset_user_def)
  show ?thesis using stored thrown fields by simp
qed

subsection \<open>Email verification with the cleared token\<close>

text \<open>
  C9. After a successful \<open>verifyEmail\<close> the stored token is the empty string, so
  \<open>verifyEmail\<close> with the empty string as token matches it and succeeds again, and again
  after that.
\<close>

theorem verifyEmail_empty_token_succeeds_again:
  assumes "users s e = Some u" and "verificationToken u = T"
  shows "fst (verifyEmail T e s) = Inr (Format_success NoData ''Email verified successfully'')
       \<and> users (snd (verifyEmail T e s)) e = Some (u\<lparr>isVerified := True, verificationToken := ''''\<rparr>)
       \<and> fst (verifyEmail '''' e (snd (verifyEmail T e s)))
           = Inr (Format_success NoData ''Email verified successfully'')
       \<and> fst (verifyEmail '''' e (snd (verifyEmail '''' e (snd (verifyEmail T e s)))))
           = Inr (Format_success NoData ''Email verified successfully'')"
  using assms by (simp add: verifyEmail_def getUserByEmailInsecure_def save_def)

theorem verifyEmail_empty_token_succeeds_again_witness:
  "users example_state ''a@x.com'' = Some example_user
   \<and> verificationToken example_user = ''tok-1''
   \<and> fst (verifyEmail ''tok-1'' ''a@x.com'' example_state)
       = Inr (Format_success NoData ''Email verified successfully'')
   \<and> fst (verifyEmail '''' ''a@x.com'' (snd (verifyEmail ''tok-1'' ''a@x.com'' example_state)))
       = Inr (Format_success NoData ''Email verified successfully'')"
proof -
  have u: "users example_state ''a@x.com'' = Some example_user"
    by (simp add: example_state_def)
  have t: "verificationToken example_user = ''tok-1''"
    by (simp add: example_user_def)
  show ?thesis
    using u t verifyEmail_empty_token_succeeds_again [OF u t] by simp
qed

end
